theory Spec2Isabelle
  imports Main "HOL-Library.Sublist"
begin

section \<open>The service worker (docs/sw.js)\<close>

subsection \<open>Cache names and the precache manifest\<close>

definition CACHE_VERSION :: string where
  "CACHE_VERSION = ''v1''"

definition STATIC_CACHE :: string where
  "STATIC_CACHE = ''car-auction-static-'' @ CACHE_VERSION"

definition DYNAMIC_CACHE :: string where
  "DYNAMIC_CACHE = ''car-auction-dynamic-'' @ CACHE_VERSION"

definition IMAGE_CACHE :: string where
  "IMAGE_CACHE = ''car-auction-images-'' @ CACHE_VERSION"

definition API_CACHE :: string where
  "API_CACHE = ''car-auction-api-'' @ CACHE_VERSION"

definition STATIC_ASSETS :: "string list" where
  "STATIC_ASSETS =
     [''/'', ''/index.html'', ''/manifest.json'',
      ''/icons/icon-72x72.png'', ''/icons/icon-96x96.png'', ''/icons/icon-128x128.png'',
      ''/icons/icon-144x144.png'', ''/icons/icon-152x152.png'', ''/icons/icon-192x192.png'',
      ''/icons/icon-384x384.png'', ''/icons/icon-512x512.png'',
      ''/icons/apple-icon-152.png'', ''/icons/apple-icon-167.png'',
      ''/icons/apple-icon-180.png'']"

subsection \<open>Requests, responses and the cache storage\<close>

text \<open>
  A request as the fetch listener reads it: \<open>request.method\<close> (the field
  \<open>req_method\<close>), \<open>request.url\<close>,
  \<open>request.destination\<close>, and the two parts of \<open>new URL(request.url)\<close> it uses,
  \<open>url.origin\<close> and \<open>url.pathname\<close>. URL parsing belongs to the platform, so both
  parts are fields of the request.
\<close>

record request =
  req_method :: string
  url :: string
  url_origin :: string
  url_pathname :: string
  destination :: string

record response =
  status :: nat
  body :: string

text \<open>
  \<open>fetch(request)\<close> either resolves with a response (of any status) or rejects with a
  network error.
\<close>

datatype net = NetOk response | NetFail string

text \<open>
  A cache maps request URLs to responses; the cache storage is the list of named caches
  in creation order, which is the order \<open>caches.match\<close> searches them in.
\<close>

type_synonym cache = "(string \<times> response) list"
type_synonym cache_storage = "(string \<times> cache) list"

fun cache_put :: "string \<Rightarrow> response \<Rightarrow> cache \<Rightarrow> cache" where
  "cache_put k r [] = [(k, r)]"
| "cache_put k r ((k', r') # c) =
     (if k' = k then (k, r) # c else (k', r') # cache_put k r c)"

text \<open>\<open>caches.match(request)\<close>: the first hit over all caches, or \<open>undefined\<close>.\<close>

fun caches_match :: "cache_storage \<Rightarrow> request \<Rightarrow> response option" where
  "caches_match [] req = None"
| "caches_match ((name, c) # cs) req =
     (case map_of c (url req) of
        Some r \<Rightarrow> Some r
      | None \<Rightarrow> caches_match cs req)"

text \<open>
  \<open>caches.open(name).then(cache => cache.put(request, response))\<close>: \<open>open\<close> creates
  the cache when it does not exist yet.
\<close>

fun caches_put :: "string \<Rightarrow> request \<Rightarrow> response \<Rightarrow> cache_storage \<Rightarrow> cache_storage" where
  "caches_put name req r [] = [(name, [(url req, r)])]"
| "caches_put name req r ((n, c) # cs) =
     (if n = name then (n, cache_put (url req) r c) # cs
      else (n, c) # caches_put name req r cs)"

text \<open>The entry a named cache holds for a request.\<close>

definition cache_entry :: "cache_storage \<Rightarrow> string \<Rightarrow> request \<Rightarrow> response option" where
  "cache_entry cs name req =
     (case map_of cs name of None \<Rightarrow> None | Some c \<Rightarrow> map_of c (url req))"

subsection \<open>What a run of the fetch listener does\<close>

text \<open>
  The listener either returns without calling \<open>event.respondWith\<close> (the browser then
  handles the request itself), or hands \<open>respondWith\<close> a promise that is fulfilled with
  a response, fulfilled with \<open>undefined\<close>, or rejected with the error of \<open>fetch\<close>.
  Next to the outcome a run yields the cache storage it leaves behind and the cache
  reads, network fetches and cache writes it performed.
\<close>

datatype outcome = NotHandled | Fulfilled "response option" | RejectedWith string

datatype effect = Match string | Fetch string | Put string string

record result =
  outcome :: outcome
  caches :: cache_storage
  effects :: "effect list"

subsection \<open>Request classification\<close>

definition to_lower :: "char \<Rightarrow> char" where
  "to_lower c =
     (if (65::nat) \<le> of_char c \<and> of_char c \<le> (90::nat)
      then char_of (of_char c + (32::nat)) else c)"

definition image_extensions :: "string list" where
  "image_extensions = [''jpg'', ''jpeg'', ''png'', ''gif'', ''svg'', ''webp'']"

text \<open>\<open>request.url.match(/\.(jpg|jpeg|png|gif|svg|webp)$/i)\<close>\<close>

definition matches_image_extension :: "string \<Rightarrow> bool" where
  "matches_image_extension u =
     list_ex (\<lambda>ext. suffix (CHR ''.'' # ext) (map to_lower u)) image_extensions"

definition isImageRequest :: "request \<Rightarrow> bool" where
  "isImageRequest req \<longleftrightarrow>
     destination req = ''image'' \<or> matches_image_extension (url req)"

text \<open>\<open>s.includes(p)\<close>: \<open>p\<close> occurs in \<open>s\<close> as a contiguous piece.\<close>

definition includes_str :: "string \<Rightarrow> string \<Rightarrow> bool" where
  "includes_str s p = sublist p s"

definition isApiRequest :: "request \<Rightarrow> bool" where
  "isApiRequest req \<longleftrightarrow>
     includes_str (url req) ''/api/'' \<or> includes_str (url req) ''/analyze''
     \<or> includes_str (url req) ''/vehicle''"

definition isStaticAsset :: "request \<Rightarrow> bool" where
  "isStaticAsset req \<longleftrightarrow>
     url_pathname req \<in> set STATIC_ASSETS \<or> prefix ''/icons/'' (url_pathname req)"

subsection \<open>The four strategies\<close>

text \<open>
  The \<open>then\<close> continuation shared by every strategy's \<open>fetch\<close>: a response of status
  200 is put into the strategy's cache, any response is passed on. The listener starts the
  write (\<open>caches.open(...).then(cache => cache.put(...))\<close>) and does not wait for it;
  where the write takes place, a run is described with it done.
\<close>

definition store_200 :: "string \<Rightarrow> request \<Rightarrow> response \<Rightarrow> cache_storage \<Rightarrow> cache_storage" where
  "store_200 name req r cs = (if status r = 200 then caches_put name req r cs else cs)"

definition put_effect :: "string \<Rightarrow> request \<Rightarrow> response \<Rightarrow> effect list" where
  "put_effect name req r = (if status r = 200 then [Put name (url req)] else [])"

text \<open>Strategy 1: cache first; the \<open>fetch\<close> has no \<open>catch\<close>.\<close>

definition cache_first :: "cache_storage \<Rightarrow> net \<Rightarrow> request \<Rightarrow> result" where
  "cache_first cs n req =
     (case caches_match cs req of
        Some r \<Rightarrow> \<lparr>outcome = Fulfilled (Some r), caches = cs, effects = [Match (url req)]\<rparr>
      | None \<Rightarrow>
          (case n of
             NetOk nr \<Rightarrow>
               \<lparr>outcome = Fulfilled (Some nr), caches = store_200 STATIC_CACHE req nr cs,
                effects = [Match (url req), Fetch (url req)] @ put_effect STATIC_CACHE req nr\<rparr>
           | NetFail e \<Rightarrow>
               \<lparr>outcome = RejectedWith e, caches = cs,
                effects = [Match (url req), Fetch (url req)]\<rparr>))"

text \<open>
  Strategies 2 and 4 differ in the cache they write to only: the cache is read, the
  fetch is started in any case, its error is caught (the \<open>catch\<close> logs and yields
  \<open>undefined\<close>), and the answer is \<open>response || fetchPromise\<close>.

  Unlike strategies 1 and 3, which clone the network response before they return it, these
  two call \<open>networkResponse.clone()\<close> later, inside \<open>caches.open(...).then\<close>. On a hit
  the network response goes nowhere else, and the clone is put into the cache. On a miss
  the same response has been returned to \<open>respondWith\<close> by then, which reads its body:
  \<open>clone()\<close> throws on the used body and nothing is put.
\<close>

definition cached_or_fetch :: "string \<Rightarrow> cache_storage \<Rightarrow> net \<Rightarrow> request \<Rightarrow> result" where
  "cached_or_fetch name cs n req =
     (case n of
        NetOk nr \<Rightarrow>
          (case caches_match cs req of
             Some r \<Rightarrow>
               \<lparr>outcome = Fulfilled (Some r), caches = store_200 name req nr cs,
                effects = [Match (url req), Fetch (url req)] @ put_effect name req nr\<rparr>
           | None \<Rightarrow>
               \<lparr>outcome = Fulfilled (Some nr), caches = cs,
                effects = [Match (url req), Fetch (url req)]\<rparr>)
      | NetFail e \<Rightarrow>
          \<lparr>outcome = Fulfilled (caches_match cs req), caches = cs,
           effects = [Match (url req), Fetch (url req)]\<rparr>)"

definition image_strategy :: "cache_storage \<Rightarrow> net \<Rightarrow> request \<Rightarrow> result" where
  "image_strategy = cached_or_fetch IMAGE_CACHE"

definition stale_while_revalidate :: "cache_storage \<Rightarrow> net \<Rightarrow> request \<Rightarrow> result" where
  "stale_while_revalidate = cached_or_fetch DYNAMIC_CACHE"

text \<open>
  Strategy 3: network first; the \<open>catch\<close> logs the error and answers with
  \<open>caches.match(request)\<close>, whatever that finds.
\<close>

definition network_first :: "cache_storage \<Rightarrow> net \<Rightarrow> request \<Rightarrow> result" where
  "network_first cs n req =
     (case n of
        NetOk nr \<Rightarrow>
          \<lparr>outcome = Fulfilled (Some nr), caches = store_200 API_CACHE req nr cs,
           effects = [Fetch (url req)] @ put_effect API_CACHE req nr\<rparr>
      | NetFail e \<Rightarrow>
          \<lparr>outcome = Fulfilled (caches_match cs req), caches = cs,
           effects = [Fetch (url req), Match (url req)]\<rparr>)"

subsection \<open>The fetch listener\<close>

text \<open>
  \<open>self_origin\<close> is \<open>self.location.origin\<close>; \<open>n\<close> is what \<open>fetch(request)\<close> answers
  if the listener calls it.
\<close>

definition fetch_listener :: "string \<Rightarrow> cache_storage \<Rightarrow> net \<Rightarrow> request \<Rightarrow> result" where
  "fetch_listener self_origin cs n req =
     (if req_method req \<noteq> ''GET'' \<or> url_origin req \<noteq> self_origin
      then \<lparr>outcome = NotHandled, caches = cs, effects = []\<rparr>
      else if isStaticAsset req then cache_first cs n req
      else if isImageRequest req then image_strategy cs n req
      else if isApiRequest req then network_first cs n req
      else stale_while_revalidate cs n req)"

subsection \<open>What the requesting page gets\<close>

text \<open>
  The platform's side of \<open>event.respondWith\<close>: when the listener did not call it, the
  browser performs the request itself; a promise fulfilled with a response answers the
  page with that response; a promise that is rejected, or fulfilled with something that is
  not a response, answers the page with a network error, so that its \<open>fetch\<close> fails.
\<close>

datatype page_result = BrowserFetches | PageResponse response | PageNetworkError

fun page_gets :: "outcome \<Rightarrow> page_result" where
  "page_gets NotHandled = BrowserFetches"
| "page_gets (Fulfilled (Some r)) = PageResponse r"
| "page_gets (Fulfilled None) = PageNetworkError"
| "page_gets (RejectedWith e) = PageNetworkError"

subsection \<open>The sync listener and the pending uploads\<close>

text \<open>
  A record of the \<open>pending-uploads\<close> object store of \<open>car-auction-db\<close>. The listener
  reads \<open>upload.id\<close> and serialises the whole object as the body of the POST; \<open>attempts\<close>
  stands for the delivery counter such a record may carry, \<open>payload\<close> for the rest.
\<close>

record upload =
  upload_id :: nat
  payload :: string
  attempts :: nat

text \<open>\<open>response.ok\<close>: a status in the range 200 to 299.\<close>

definition ok :: "response \<Rightarrow> bool" where
  "ok r \<longleftrightarrow> 200 \<le> status r \<and> status r \<le> 299"

text \<open>
  The identifiers bound where the continuation of line 210 runs: its own parameter, the
  parameter of the \<open>map\<close> callback, the local and the parameter of the continuation of
  line 200, the parameter of the listener, and the top-level declarations of the script.
  The \<open>db\<close> of line 195 is the parameter of the continuation before, which encloses
  none of these lines.
\<close>

definition bound_at_line_213 :: "string list" where
  "bound_at_line_213 =
     [''response'', ''upload'', ''uploadPromises'', ''pendingUploads'', ''event'',
      ''CACHE_VERSION'', ''STATIC_CACHE'', ''DYNAMIC_CACHE'', ''IMAGE_CACHE'', ''API_CACHE'',
      ''STATIC_ASSETS'', ''isImageRequest'', ''isApiRequest'']"

text \<open>
  How the promise of one upload settles (lines 203 to 217). A rejected \<open>fetch\<close> rejects
  it. A response that is not \<open>ok\<close> fulfils it with \<open>undefined\<close>. For an \<open>ok\<close> response the
  continuation evaluates \<open>db.transaction(...)\<close> and then deletes the upload by its id;
  evaluating an identifier that is not bound raises a ReferenceError.
\<close>

datatype settled = Undefined | Deleted nat | Threw string

definition upload_settles :: "upload \<Rightarrow> net \<Rightarrow> settled" where
  "upload_settles u n =
     (case n of
        NetFail e \<Rightarrow> Threw e
      | NetOk r \<Rightarrow>
          if ok r
          then (if ''db'' \<in> set bound_at_line_213 then Deleted (upload_id u)
                else Threw ''ReferenceError: db is not defined'')
          else Undefined)"

text \<open>\<open>store.delete(key)\<close> on the object store, whose key is \<open>id\<close>.\<close>

definition store_delete :: "nat \<Rightarrow> upload list \<Rightarrow> upload list" where
  "store_delete k st = filter (\<lambda>u. upload_id u \<noteq> k) st"

fun after_settling :: "settled list \<Rightarrow> upload list \<Rightarrow> upload list" where
  "after_settling [] st = st"
| "after_settling (Deleted k # xs) st = after_settling xs (store_delete k st)"
| "after_settling (x # xs) st = after_settling xs st"

fun thrown_of :: "settled list \<Rightarrow> string list" where
  "thrown_of [] = []"
| "thrown_of (Threw e # xs) = e # thrown_of xs"
| "thrown_of (x # xs) = thrown_of xs"

text \<open>
  A run of the sync listener: \<open>posted\<close> are the uploads a POST to \<open>/api/analyze\<close> was
  issued for, in the order of the calls to \<open>fetch\<close>; \<open>pending\<close> is the object store
  afterwards; \<open>thrown\<close> are the errors raised, by the listener itself or as the
  rejections of the upload promises.
\<close>

record sync_result =
  posted :: "upload list"
  pending :: "upload list"
  thrown :: "string list"

text \<open>
  The continuations of lines 195 to 221, for a promise of the database: \<open>getAll\<close>
  delivers the stored uploads, \<open>pendingUploads.map\<close> calls \<open>fetch\<close> for every one of
  them, and each upload promise settles as above. \<open>server u\<close> is what the POST for \<open>u\<close>
  answers.
\<close>

definition drain_pending :: "upload list \<Rightarrow> (upload \<Rightarrow> net) \<Rightarrow> sync_result" where
  "drain_pending stored server =
     (let settles = map (\<lambda>u. upload_settles u (server u)) stored
      in \<lparr>posted = stored, pending = after_settling settles stored,
          thrown = thrown_of settles\<rparr>)"

text \<open>
  Line 194 calls \<open>.then\<close> on what \<open>self.indexedDB.open('car-auction-db', 1)\<close> returns.
  That is the platform's \<open>IDBFactory.open\<close>, which returns an \<open>IDBOpenDBRequest\<close>; the
  script loads no wrapper around it. These are the members of such a request, its own and
  those of \<open>IDBRequest\<close> and \<open>EventTarget\<close>. Calling a member it does not have raises a
  TypeError, inside the argument of \<open>event.waitUntil\<close> and before any continuation is
  registered.
\<close>

definition IDBOpenDBRequest_members :: "string list" where
  "IDBOpenDBRequest_members =
     [''onblocked'', ''onupgradeneeded'', ''result'', ''error'', ''source'',
      ''transaction'', ''readyState'', ''onsuccess'', ''onerror'',
      ''addEventListener'', ''removeEventListener'', ''dispatchEvent'']"

text \<open>The sync listener (lines 188 to 227). For another tag it does nothing.\<close>

definition sync_listener :: "string \<Rightarrow> upload list \<Rightarrow> (upload \<Rightarrow> net) \<Rightarrow> sync_result" where
  "sync_listener tag stored server =
     (if tag = ''sync-photos''
      then (if ''then'' \<in> set IDBOpenDBRequest_members
            then drain_pending stored server
            else \<lparr>posted = [], pending = stored,
                  thrown = [''TypeError: self.indexedDB.open(...).then is not a function'']\<rparr>)
      else \<lparr>posted = [], pending = stored, thrown = []\<rparr>)"

section \<open>The API client (mobile/CarAuctionAnalyzer/src/config/api.ts)\<close>

subsection \<open>Persistent storage\<close>

text \<open>
  The three keys of \<open>TOKEN_STORAGE\<close> in AsyncStorage; \<open>getItem\<close> of a missing key gives
  \<open>null\<close>. AsyncStorage is taken as a store whose operations do not fail.
\<close>

record storage =
  ACCESS_TOKEN :: "string option"
  REFRESH_TOKEN :: "string option"
  USER_DATA :: "string option"

definition clearAuthData :: "storage \<Rightarrow> storage" where
  "clearAuthData st = \<lparr>ACCESS_TOKEN = None, REFRESH_TOKEN = None, USER_DATA = None\<rparr>"

text \<open>JavaScript truthiness of a stored string: \<open>null\<close> and the empty string are falsy.\<close>

definition truthy :: "string option \<Rightarrow> bool" where
  "truthy v \<longleftrightarrow> (case v of None \<Rightarrow> False | Some t \<Rightarrow> t \<noteq> [])"

subsection \<open>Request configurations\<close>

text \<open>
  The part of an axios request configuration the interceptors touch: the \<open>_retry\<close> mark,
  whether \<open>headers\<close> is defined, and the \<open>Authorization\<close> header. \<open>rid\<close> names the call
  of the client the configuration belongs to; it is kept when the request is sent again.
\<close>

record config =
  rid :: nat
  retry :: bool
  has_headers :: bool
  authorization :: "string option"

definition set_bearer :: "string \<Rightarrow> config \<Rightarrow> config" where
  "set_bearer token c =
     (if has_headers c then c\<lparr>authorization := Some (''Bearer '' @ token)\<rparr> else c)"

datatype failure =
    NoInternetConnection
  | AuthenticationRequired
  | NetworkError
  | ApiError nat

text \<open>The request interceptor (lines 131 to 147), run for every request sent.\<close>

definition request_interceptor :: "bool \<Rightarrow> storage \<Rightarrow> config \<Rightarrow> failure + config" where
  "request_interceptor isConnected st c =
     (if \<not> isConnected then Inl NoInternetConnection
      else (case ACCESS_TOKEN st of
              None \<Rightarrow> Inr c
            | Some token \<Rightarrow> if truthy (Some token) then Inr (set_bearer token c) else Inr c))"

subsection \<open>The response interceptor as a transition system\<close>

text \<open>
  The error handler of the response interceptor (lines 152 to 231) is an \<open>async\<close>
  function: it runs without interruption from one \<open>await\<close> to the next, and other
  handlers run while it waits. A suspended run that has passed line 170 is recorded with
  the \<open>await\<close> it is waiting at.
\<close>

datatype phase =
    GetRefreshToken
  | ClearNoToken
  | PostRefresh
  | SetAccessToken string string
  | SetRefreshToken string string
  | ClearOnFailure

text \<open>
  The client: its two private fields, AsyncStorage, the suspended handler runs (each with
  its \<open>originalRequest\<close>), and what has left the client so far: the refresh tokens posted
  to the refresh endpoint, the configurations handed to \<open>this.instance\<close> for a re-send,
  and the calls whose promise was rejected, with the error.
\<close>

record client =
  isRefreshing :: bool
  refreshSubscribers :: "config list"
  asyncStorage :: storage
  handlers :: "(config \<times> phase) list"
  refreshCalls :: "string list"
  resent :: "config list"
  rejected :: "(nat \<times> failure) list"

definition initial_client :: "storage \<Rightarrow> client" where
  "initial_client st =
     \<lparr>isRefreshing = False, refreshSubscribers = [], asyncStorage = st, handlers = [],
      refreshCalls = [], resent = [], rejected = []\<rparr>"

fun lookup_handler :: "nat \<Rightarrow> (config \<times> phase) list \<Rightarrow> (config \<times> phase) option" where
  "lookup_handler r [] = None"
| "lookup_handler r ((c, p) # hs) = (if rid c = r then Some (c, p) else lookup_handler r hs)"

fun set_phase :: "nat \<Rightarrow> phase \<Rightarrow> (config \<times> phase) list \<Rightarrow> (config \<times> phase) list" where
  "set_phase r q [] = []"
| "set_phase r q ((c, p) # hs) = (if rid c = r then (c, q) # hs else (c, p) # set_phase r q hs)"

fun drop_handler :: "nat \<Rightarrow> (config \<times> phase) list \<Rightarrow> (config \<times> phase) list" where
  "drop_handler r [] = []"
| "drop_handler r ((c, p) # hs) = (if rid c = r then hs else (c, p) # drop_handler r hs)"

text \<open>
  What the environment does to the client: a response error reaches the interceptor
  (with the configuration of the request and \<open>error.response?.status\<close>), the storage
  operation a handler run waits for completes, or the POST to the refresh endpoint a
  handler run waits for resolves (with \<open>access_token\<close> and \<open>refresh_token\<close>) or rejects.
\<close>

datatype event =
    ResponseError config "nat option"
  | StorageDone nat
  | PostOk nat string string
  | PostFail nat

text \<open>
  Lines 153 to 170 and 213 to 230: the handler up to its first \<open>await\<close>. A waiter is
  the closure pushed in line 160, which holds its \<open>originalRequest\<close>.
\<close>

definition on_response_error :: "config \<Rightarrow> nat option \<Rightarrow> client \<Rightarrow> client" where
  "on_response_error c st s =
     (if st = Some 401 \<and> \<not> retry c then
        (if isRefreshing s
         then s\<lparr>refreshSubscribers := refreshSubscribers s @ [c]\<rparr>
         else s\<lparr>isRefreshing := True,
                handlers := handlers s @ [(c\<lparr>retry := True\<rparr>, GetRefreshToken)]\<rparr>)
      else (case st of
              None \<Rightarrow> s\<lparr>rejected := rejected s @ [(rid c, NetworkError)]\<rparr>
            | Some code \<Rightarrow> s\<lparr>rejected := rejected s @ [(rid c, ApiError code)]\<rparr>))"

text \<open>Lines 204 to 208: the \<open>catch\<close> up to its \<open>await\<close>.\<close>

definition enter_catch :: "nat \<Rightarrow> client \<Rightarrow> client" where
  "enter_catch r s =
     s\<lparr>refreshSubscribers := [], isRefreshing := False,
       handlers := set_phase r ClearOnFailure (handlers s)\<rparr>"

text \<open>
  Lines 192 to 203: each waiter is called with the new token, which sets its header and
  re-sends its request; then the original request is re-sent.
\<close>

definition notify_and_retry :: "nat \<Rightarrow> config \<Rightarrow> string \<Rightarrow> client \<Rightarrow> client" where
  "notify_and_retry r c access_token s =
     s\<lparr>resent := resent s @ map (set_bearer access_token) (refreshSubscribers s)
                  @ [set_bearer access_token c],
       refreshSubscribers := [], isRefreshing := False,
       handlers := drop_handler r (handlers s)\<rparr>"

definition on_storage_done :: "nat \<Rightarrow> client \<Rightarrow> client" where
  "on_storage_done r s =
     (case lookup_handler r (handlers s) of
        None \<Rightarrow> s
      | Some (c, p) \<Rightarrow>
          (case p of
             GetRefreshToken \<Rightarrow>
               (case REFRESH_TOKEN (asyncStorage s) of
                  None \<Rightarrow> s\<lparr>handlers := set_phase r ClearNoToken (handlers s)\<rparr>
                | Some refreshToken \<Rightarrow>
                    if truthy (Some refreshToken)
                    then s\<lparr>refreshCalls := refreshCalls s @ [refreshToken],
                           handlers := set_phase r PostRefresh (handlers s)\<rparr>
                    else s\<lparr>handlers := set_phase r ClearNoToken (handlers s)\<rparr>)
           | ClearNoToken \<Rightarrow>
               enter_catch r (s\<lparr>asyncStorage := clearAuthData (asyncStorage s)\<rparr>)
           | PostRefresh \<Rightarrow> s
           | SetAccessToken access_token refresh_token \<Rightarrow>
               s\<lparr>asyncStorage := (asyncStorage s)\<lparr>ACCESS_TOKEN := Some access_token\<rparr>,
                 handlers := set_phase r (SetRefreshToken access_token refresh_token) (handlers s)\<rparr>
           | SetRefreshToken access_token refresh_token \<Rightarrow>
               notify_and_retry r c access_token
                 (s\<lparr>asyncStorage := (asyncStorage s)\<lparr>REFRESH_TOKEN := Some refresh_token\<rparr>\<rparr>)
           | ClearOnFailure \<Rightarrow>
               s\<lparr>asyncStorage := clearAuthData (asyncStorage s),
                 rejected := rejected s @ [(r, AuthenticationRequired)],
                 handlers := drop_handler r (handlers s)\<rparr>))"

definition on_post_ok :: "nat \<Rightarrow> string \<Rightarrow> string \<Rightarrow> client \<Rightarrow> client" where
  "on_post_ok r access_token refresh_token s =
     (case lookup_handler r (handlers s) of
        Some (c, PostRefresh) \<Rightarrow>
          s\<lparr>handlers := set_phase r (SetAccessToken access_token refresh_token) (handlers s)\<rparr>
      | _ \<Rightarrow> s)"

definition on_post_fail :: "nat \<Rightarrow> client \<Rightarrow> client" where
  "on_post_fail r s =
     (case lookup_handler r (handlers s) of
        Some (c, PostRefresh) \<Rightarrow> enter_catch r s
      | _ \<Rightarrow> s)"

fun step :: "client \<Rightarrow> event \<Rightarrow> client" where
  "step s (ResponseError c st) = on_response_error c st s"
| "step s (StorageDone r) = on_storage_done r s"
| "step s (PostOk r access_token refresh_token) = on_post_ok r access_token refresh_token s"
| "step s (PostFail r) = on_post_fail r s"

definition run :: "client \<Rightarrow> event list \<Rightarrow> client" where
  "run s es = foldl step s es"

text \<open>The events of a list of requests that each get a 401 response.\<close>

definition unauthorized :: "config list \<Rightarrow> event list" where
  "unauthorized cs = map (\<lambda>c. ResponseError c (Some 401)) cs"

section \<open>Runs, invariants and sample inputs\<close>

text \<open>
  A sequence of fetch events, each with the answer the network would give it, handled one
  after the other on the cache storage the previous one left.
\<close>

fun serve_all :: "string \<Rightarrow> cache_storage \<Rightarrow> (net \<times> request) list \<Rightarrow> (request \<times> result) list" where
  "serve_all so cs [] = []"
| "serve_all so cs ((n, q) # xs) =
     (q, fetch_listener so cs n q) # serve_all so (caches (fetch_listener so cs n q)) xs"

text \<open>
  A handler run is refreshing from line 170 until it has notified the waiters (line 200) or
  entered the \<open>catch\<close> (line 207). The client is single-flight when exactly the runs
  counted by \<open>isRefreshing\<close> are refreshing, and nobody waits while none is.
\<close>

definition refreshing :: "config \<times> phase \<Rightarrow> bool" where
  "refreshing h \<longleftrightarrow> snd h \<noteq> ClearOnFailure"

definition single_flight :: "client \<Rightarrow> bool" where
  "single_flight s \<longleftrightarrow>
     length (filter refreshing (handlers s)) = (if isRefreshing s then 1 else 0)
     \<and> (\<not> isRefreshing s \<longrightarrow> refreshSubscribers s = [])"

definition app_origin :: string where
  "app_origin = ''https://app.example''"

definition icon_request :: request where
  "icon_request =
     \<lparr>req_method = ''GET'', url = ''https://app.example/icons/icon-72x72.png'',
      url_origin = ''https://app.example'', url_pathname = ''/icons/icon-72x72.png'',
      destination = ''image''\<rparr>"

definition api_request :: request where
  "api_request =
     \<lparr>req_method = ''GET'', url = ''https://app.example/api/vehicles'',
      url_origin = ''https://app.example'', url_pathname = ''/api/vehicles'',
      destination = []\<rparr>"

definition page_request :: request where
  "page_request =
     \<lparr>req_method = ''GET'', url = ''https://app.example/about'',
      url_origin = ''https://app.example'', url_pathname = ''/about'',
      destination = ''document''\<rparr>"

definition post_request :: request where
  "post_request =
     \<lparr>req_method = ''POST'', url = ''https://app.example/api/analyze'',
      url_origin = ''https://app.example'', url_pathname = ''/api/analyze'',
      destination = []\<rparr>"

definition old_response :: response where
  "old_response = \<lparr>status = 200, body = ''old''\<rparr>"

definition new_response :: response where
  "new_response = \<lparr>status = 200, body = ''new''\<rparr>"

definition precached :: cache_storage where
  "precached = [(STATIC_CACHE, [(url icon_request, old_response)])]"


definition api_cached :: cache_storage where
  "api_cached = [(STATIC_CACHE, []), (API_CACHE, [(url api_request, old_response)])]"

definition offline_upload :: upload where
  "offline_upload = \<lparr>upload_id = 1, payload = ''exterior_front'', attempts = 0\<rparr>"

definition later_upload :: upload where
  "later_upload = \<lparr>upload_id = 2, payload = ''interior'', attempts = 0\<rparr>"


definition always_accepts :: "upload \<Rightarrow> net" where
  "always_accepts u = NetOk \<lparr>status = 200, body = ''queued''\<rparr>"

definition logged_in :: storage where
  "logged_in =
     \<lparr>ACCESS_TOKEN = Some ''access-1'', REFRESH_TOKEN = Some ''refresh-1'',
      USER_DATA = Some ''user''\<rparr>"

definition no_refresh_token :: storage where
  "no_refresh_token =
     \<lparr>ACCESS_TOKEN = Some ''access-1'', REFRESH_TOKEN = None, USER_DATA = Some ''user''\<rparr>"

definition logged_out :: storage where
  "logged_out = \<lparr>ACCESS_TOKEN = None, REFRESH_TOKEN = None, USER_DATA = None\<rparr>"

definition request_A :: config where
  "request_A =
     \<lparr>rid = 1, retry = False, has_headers = True, authorization = Some ''Bearer access-1''\<rparr>"

definition request_B :: config where
  "request_B =
     \<lparr>rid = 2, retry = False, has_headers = True, authorization = Some ''Bearer access-1''\<rparr>"

definition request_C :: config where
  "request_C =
     \<lparr>rid = 3, retry = False, has_headers = True, authorization = Some ''Bearer access-1''\<rparr>"

definition retried_request :: config where
  "retried_request =
     \<lparr>rid = 1, retry = True, has_headers = True, authorization = Some ''Bearer access-1''\<rparr>"

section \<open>Properties of the cache strategy router\<close>

subsection \<open>The cache storage\<close>

lemma map_of_cache_put:
  "map_of (cache_put k r c) k' = (if k' = k then Some r else map_of c k')"
  by (induction c) auto

lemma cache_entry_caches_put:
  "cache_entry (caches_put name req r cs) name req = Some r"
  by (induction cs) (auto simp: cache_entry_def map_of_cache_put)

lemma caches_match_caches_put_keeps:
  "caches_match cs req \<noteq> None \<Longrightarrow> caches_match (caches_put name q r cs) req \<noteq> None"
  by (induction cs) (auto simp: map_of_cache_put split: option.splits)

lemma cache_entry_imp_match:
  "cache_entry cs name req \<noteq> None \<Longrightarrow> caches_match cs req \<noteq> None"
  by (induction cs) (auto simp: cache_entry_def split: option.splits if_splits)

lemma caches_match_caches_put_only:
  assumes "\<forall>(m, c) \<in> set cs. m \<noteq> name \<longrightarrow> map_of c (url req) = None"
  shows "caches_match (caches_put name req r cs) req = Some r"
  using assms by (induction cs) (auto simp: map_of_cache_put)

lemma store_200_keeps:
  "caches_match cs req \<noteq> None \<Longrightarrow> caches_match (store_200 name q r cs) req \<noteq> None"
  by (simp add: store_200_def caches_match_caches_put_keeps del: not_None_eq)

text \<open>No run of the listener removes an entry: what matched before still matches after.\<close>

lemma fetch_listener_keeps:
  assumes "caches_match cs req \<noteq> None"
  shows "caches_match (caches (fetch_listener so cs n q)) req \<noteq> None"
proof (cases n)
  case (NetOk nr)
  with assms show ?thesis
    by (simp add: fetch_listener_def cache_first_def image_strategy_def
        stale_while_revalidate_def cached_or_fetch_def network_first_def store_200_keeps
        del: not_None_eq split: option.splits)
next
  case (NetFail e)
  with assms show ?thesis
    by (simp add: fetch_listener_def cache_first_def image_strategy_def
        stale_while_revalidate_def cached_or_fetch_def network_first_def
        del: not_None_eq split: option.splits)
qed

subsection \<open>Mutating requests\<close>

text \<open>
  Claim C9. For a request whose method is not GET the listener returns before calling
  \<open>respondWith\<close>: it reads no cache, writes no cache, issues no fetch of its own, and
  leaves the request to the browser, whatever the cache storage and the network are.
\<close>

theorem non_get_bypasses_router:
  assumes "req_method req \<noteq> ''GET''"
  shows "fetch_listener self_origin cs n req
           = \<lparr>outcome = NotHandled, caches = cs, effects = []\<rparr>"
  using assms by (simp add: fetch_listener_def)

text \<open>Claim C9 at a POST to \<open>/api/analyze\<close>, with an entry for another request cached.\<close>

theorem non_get_bypasses_router_witness:
  "req_method post_request \<noteq> ''GET''
   \<and> fetch_listener app_origin precached (NetOk new_response) post_request
       = \<lparr>outcome = NotHandled, caches = precached, effects = []\<rparr>"
proof -
  have h: "req_method post_request \<noteq> ''GET''" by (simp add: post_request_def)
  from h non_get_bypasses_router [OF h, of app_origin precached "NetOk new_response"]
  show ?thesis by simp
qed

subsection \<open>Cache first\<close>

lemma cache_first_hit:
  assumes "req_method req = ''GET''" and "url_origin req = so" and "isStaticAsset req"
    and "caches_match cs req = Some r"
  shows "fetch_listener so cs n req
           = \<lparr>outcome = Fulfilled (Some r), caches = cs, effects = [Match (url req)]\<rparr>"
  using assms by (simp add: fetch_listener_def cache_first_def)

lemma serve_all_static:
  assumes "req_method req = ''GET''" and "url_origin req = so" and "isStaticAsset req"
    and "caches_match cs req \<noteq> None"
  shows "\<forall>(q, res) \<in> set (serve_all so cs xs). q = req \<longrightarrow>
           (\<exists>r. outcome res = Fulfilled (Some r)) \<and> Fetch (url req) \<notin> set (effects res)"
  using assms(4)
proof (induction xs arbitrary: cs)
  case Nil
  then show ?case by simp
next
  case (Cons x xs)
  obtain n q where x: "x = (n, q)" by (cases x)
  from Cons.prems obtain r where r: "caches_match cs req = Some r" by auto
  have here: "q = req \<Longrightarrow>
      (\<exists>r. outcome (fetch_listener so cs n q) = Fulfilled (Some r))
      \<and> Fetch (url req) \<notin> set (effects (fetch_listener so cs n q))"
    using cache_first_hit [OF assms(1-3) r] by simp
  have "caches_match (caches (fetch_listener so cs n q)) req \<noteq> None"
    using Cons.prems by (rule fetch_listener_keeps)
  from Cons.IH [OF this] here show ?case
    by (simp add: x)
qed

text \<open>
  Claim C7. Let \<open>req\<close> be a same-origin GET request whose path is in the precache manifest
  or starts with \<open>/icons/\<close>. If the cache storage matches it, the listener answers with
  the matched entry, reads the cache only, issues no fetch and leaves the storage as it
  is, whatever the network would answer. If nothing matches and the network answers with
  status 200, the answer is stored in the static cache of the current version. And once
  that cache holds an entry for \<open>req\<close>, then in every later sequence of fetch events
  (for this or other requests, whatever the network answers) each event for \<open>req\<close> is
  answered from the cache without a fetch. No run of the listener deletes a cache; that
  happens on activation of another version only.
\<close>

theorem cache_first_served_from_cache:
  assumes "req_method req = ''GET''" and "url_origin req = self_origin" and "isStaticAsset req"
  shows "(caches_match cs req = Some r \<longrightarrow>
            fetch_listener self_origin cs n req
              = \<lparr>outcome = Fulfilled (Some r), caches = cs, effects = [Match (url req)]\<rparr>)
       \<and> (caches_match cs req = None \<and> n = NetOk nr \<and> status nr = 200 \<longrightarrow>
            cache_entry (caches (fetch_listener self_origin cs n req)) STATIC_CACHE req
              = Some nr)
       \<and> (cache_entry cs STATIC_CACHE req \<noteq> None \<longrightarrow>
            (\<forall>(q, res) \<in> set (serve_all self_origin cs xs). q = req \<longrightarrow>
               (\<exists>r'. outcome res = Fulfilled (Some r'))
               \<and> Fetch (url req) \<notin> set (effects res)))"
proof (intro conjI impI)
  assume "caches_match cs req = Some r"
  with assms show "fetch_listener self_origin cs n req
      = \<lparr>outcome = Fulfilled (Some r), caches = cs, effects = [Match (url req)]\<rparr>"
    by (rule cache_first_hit)
next
  assume "caches_match cs req = None \<and> n = NetOk nr \<and> status nr = 200"
  with assms
  show "cache_entry (caches (fetch_listener self_origin cs n req)) STATIC_CACHE req = Some nr"
    by (simp add: fetch_listener_def cache_first_def store_200_def cache_entry_caches_put)
next
  assume "cache_entry cs STATIC_CACHE req \<noteq> None"
  then have "caches_match cs req \<noteq> None" by (rule cache_entry_imp_match)
  with assms show "\<forall>(q, res) \<in> set (serve_all self_origin cs xs). q = req \<longrightarrow>
               (\<exists>r'. outcome res = Fulfilled (Some r'))
               \<and> Fetch (url req) \<notin> set (effects res)"
    by (rule serve_all_static)
qed

text \<open>
  Claim C7 at the request for a precached icon: answered from the cache while the network
  is down; stored on a first fetch into an empty storage; and served from the cache in a
  sequence of three events, two of them for the icon.
\<close>

theorem cache_first_served_from_cache_witness:
  "req_method icon_request = ''GET'' \<and> url_origin icon_request = app_origin
   \<and> isStaticAsset icon_request
   \<and> caches_match precached icon_request = Some old_response
   \<and> cache_entry precached STATIC_CACHE icon_request \<noteq> None
   \<and> fetch_listener app_origin precached (NetFail ''offline'') icon_request
       = \<lparr>outcome = Fulfilled (Some old_response), caches = precached,
          effects = [Match (url icon_request)]\<rparr>
   \<and> caches_match [] icon_request = None \<and> status new_response = 200
   \<and> cache_entry (caches (fetch_listener app_origin [] (NetOk new_response) icon_request))
        STATIC_CACHE icon_request = Some new_response
   \<and> list_all
        (\<lambda>(q, res). q = icon_request \<longrightarrow>
           (\<exists>r'. outcome res = Fulfilled (Some r'))
           \<and> Fetch (url icon_request) \<notin> set (effects res))
        (serve_all app_origin precached
           [(NetOk new_response, icon_request), (NetOk new_response, page_request),
            (NetFail ''offline'', icon_request)])"
proof -
  have h1: "req_method icon_request = ''GET''" by (simp add: icon_request_def)
  have h2: "url_origin icon_request = app_origin"
    by (simp add: icon_request_def app_origin_def)
  have h3: "isStaticAsset icon_request" by code_simp
  have h4: "caches_match precached icon_request = Some old_response"
    by (simp add: precached_def)
  have h5: "cache_entry precached STATIC_CACHE icon_request \<noteq> None"
    by (simp add: precached_def cache_entry_def)
  have h6: "caches_match [] icon_request = None" by simp
  have h7: "status new_response = 200" by (simp add: new_response_def)
  note a = cache_first_served_from_cache [OF h1 h2 h3, of precached old_response
      "NetFail ''offline''" new_response
      "[(NetOk new_response, icon_request), (NetOk new_response, page_request),
        (NetFail ''offline'', icon_request)]"]
  note b = cache_first_served_from_cache [OF h1 h2 h3, of "[]" old_response
      "NetOk new_response" new_response "[]"]
  from a b h1 h2 h3 h4 h5 h6 h7 show ?thesis
    unfolding list_all_iff by blast
qed

subsection \<open>Stale while revalidate\<close>



subsection \<open>Network first\<close>

text \<open>
  Claim C5. Let \<open>req\<close> be a same-origin GET request that matches the API surface and is
  neither a static asset nor an image request. The listener starts with the fetch. If the
  network answers, the page gets that response, and the response is stored in the API
  cache when its status is 200 (the status the listener takes as success). If the fetch
  fails, the listener reads the cache storage: the page gets the entry matched for \<open>req\<close>
  if there is one, and a network error if there is none (the listener logs the error of
  its fetch and fulfils its promise with \<open>undefined\<close>, which \<open>respondWith\<close> answers
  with a network error). The entry matched is the one stored last: after an answer of
  status 200 a failing fetch is answered with that answer, provided no other cache holds
  an entry for \<open>req\<close>.
\<close>

theorem network_first_with_cache_fallback:
  assumes "req_method req = ''GET''" and "url_origin req = self_origin"
    and "\<not> isStaticAsset req" and "\<not> isImageRequest req" and "isApiRequest req"
  shows "hd (effects (fetch_listener self_origin cs n req)) = Fetch (url req)
       \<and> (n = NetOk nr \<longrightarrow>
            page_gets (outcome (fetch_listener self_origin cs n req)) = PageResponse nr
            \<and> (status nr = 200 \<longrightarrow>
                 cache_entry (caches (fetch_listener self_origin cs n req)) API_CACHE req
                   = Some nr))
       \<and> (n = NetFail e \<longrightarrow>
            caches (fetch_listener self_origin cs n req) = cs
            \<and> (caches_match cs req = Some r \<longrightarrow>
                 page_gets (outcome (fetch_listener self_origin cs n req)) = PageResponse r)
            \<and> (caches_match cs req = None \<longrightarrow>
                 page_gets (outcome (fetch_listener self_origin cs n req)) = PageNetworkError))
       \<and> (n = NetOk nr \<and> status nr = 200
            \<and> (\<forall>(m, c) \<in> set cs. m \<noteq> API_CACHE \<longrightarrow> map_of c (url req) = None) \<longrightarrow>
            page_gets (outcome (fetch_listener self_origin
                (caches (fetch_listener self_origin cs n req)) (NetFail e) req))
              = PageResponse nr)"
proof -
  have strategy: "\<And>cs n. fetch_listener self_origin cs n req = network_first cs n req"
    using assms by (simp add: fetch_listener_def)
  show ?thesis
    unfolding strategy
    by (cases n)
      (simp_all add: network_first_def store_200_def cache_entry_caches_put
        caches_match_caches_put_only)
qed

text \<open>
  Claim C5 at the request for \<open>/api/vehicles\<close>: a response of status 200 is returned and
  stored, and returned again when the network is down afterwards; with the network down
  the entry in the API cache is returned; with the network down and nothing cached the
  page gets a network error.
\<close>

theorem network_first_with_cache_fallback_witness:
  "req_method api_request = ''GET'' \<and> url_origin api_request = app_origin
   \<and> \<not> isStaticAsset api_request \<and> \<not> isImageRequest api_request
   \<and> isApiRequest api_request \<and> status new_response = 200
   \<and> list_all (\<lambda>(m, c). m \<noteq> API_CACHE \<longrightarrow> map_of c (url api_request) = None) api_cached
   \<and> hd (effects (fetch_listener app_origin api_cached (NetOk new_response) api_request))
       = Fetch (url api_request)
   \<and> page_gets (outcome (fetch_listener app_origin api_cached (NetOk new_response) api_request))
       = PageResponse new_response
   \<and> cache_entry
        (caches (fetch_listener app_origin api_cached (NetOk new_response) api_request))
        API_CACHE api_request = Some new_response
   \<and> page_gets (outcome (fetch_listener app_origin
          (caches (fetch_listener app_origin api_cached (NetOk new_response) api_request))
          (NetFail ''offline'') api_request))
       = PageResponse new_response
   \<and> caches_match api_cached api_request = Some old_response
   \<and> caches (fetch_listener app_origin api_cached (NetFail ''offline'') api_request)
       = api_cached
   \<and> page_gets (outcome (fetch_listener app_origin api_cached (NetFail ''offline'') api_request))
       = PageResponse old_response
   \<and> caches_match [] api_request = None
   \<and> page_gets (outcome (fetch_listener app_origin [] (NetFail ''offline'') api_request))
       = PageNetworkError"
proof -
  have h1: "req_method api_request = ''GET''" by (simp add: api_request_def)
  have h2: "url_origin api_request = app_origin"
    by (simp add: api_request_def app_origin_def)
  have h3: "\<not> isStaticAsset api_request" by code_simp
  have h4: "\<not> isImageRequest api_request" by code_simp
  have h5: "isApiRequest api_request" by code_simp
  have h6: "status new_response = 200" by (simp add: new_response_def)
  have h7: "caches_match api_cached api_request = Some old_response"
    by (simp add: api_cached_def)
  have h8: "\<forall>(m, c) \<in> set api_cached. m \<noteq> API_CACHE \<longrightarrow> map_of c (url api_request) = None"
    by (simp add: api_cached_def)
  have h9: "caches_match [] api_request = None" by simp
  note a = network_first_with_cache_fallback [OF h1 h2 h3 h4 h5,
      of api_cached "NetOk new_response" new_response "''offline''" old_response]
  note b = network_first_with_cache_fallback [OF h1 h2 h3 h4 h5,
      of api_cached "NetFail ''offline''" new_response "''offline''" old_response]
  note c = network_first_with_cache_fallback [OF h1 h2 h3 h4 h5,
      of "[]" "NetFail ''offline''" new_response "''offline''" old_response]
  from a h6 h8
  have answered:
    "hd (effects (fetch_listener app_origin api_cached (NetOk new_response) api_request))
       = Fetch (url api_request)
     \<and> page_gets (outcome (fetch_listener app_origin api_cached (NetOk new_response)
          api_request)) = PageResponse new_response
     \<and> cache_entry
          (caches (fetch_listener app_origin api_cached (NetOk new_response) api_request))
          API_CACHE api_request = Some new_response
     \<and> page_gets (outcome (fetch_listener app_origin
            (caches (fetch_listener app_origin api_cached (NetOk new_response) api_request))
            (NetFail ''offline'') api_request))
         = PageResponse new_response"
    by simp
  from b h7
  have fallback:
    "caches (fetch_listener app_origin api_cached (NetFail ''offline'') api_request)
       = api_cached
     \<and> page_gets (outcome (fetch_listener app_origin api_cached (NetFail ''offline'')
          api_request)) = PageResponse old_response"
    by simp
  from c h9
  have uncached:
    "page_gets (outcome (fetch_listener app_origin [] (NetFail ''offline'') api_request))
       = PageNetworkError"
    by simp
  from answered fallback uncached h1 h2 h3 h4 h5 h6 h7 h8 h9 show ?thesis
    unfolding list_all_iff by simp
qed

section \<open>Properties of the sync listener\<close>





text \<open>
  Claim C3 at two pending uploads and a server that would accept both: the listener
  raises a TypeError at line 194, where it calls \<open>.then\<close> on the request object that
  \<open>indexedDB.open\<close> returns, and ends without a delivery attempt for either upload.
\<close>

theorem sync_makes_no_delivery_attempt:
  "sync_listener ''sync-photos'' [offline_upload, later_upload] always_accepts
     = \<lparr>posted = [], pending = [offline_upload, later_upload],
        thrown = [''TypeError: self.indexedDB.open(...).then is not a function'']\<rparr>"
  by (simp add: sync_listener_def IDBOpenDBRequest_members_def)



section \<open>Properties of the API client\<close>

subsection \<open>Runs\<close>

lemma run_Nil: "run s [] = s"
  by (simp add: run_def)

lemma run_Cons: "run s (e # es) = run (step s e) es"
  by (simp add: run_def)

lemma run_append: "run s (xs @ ys) = run (run s xs) ys"
  by (simp add: run_def)

text \<open>While a refresh is in flight, unmarked requests that get a 401 only join the waiters.\<close>

lemma run_waiters:
  assumes "isRefreshing s" and "\<forall>w \<in> set ws. \<not> retry w"
  shows "run s (unauthorized ws) = s\<lparr>refreshSubscribers := refreshSubscribers s @ ws\<rparr>"
  using assms
  by (induction ws arbitrary: s) (simp_all add: run_def unauthorized_def on_response_error_def)

lemma lookup_handler_last:
  assumes "rid c \<notin> rid ` fst ` set hs"
  shows "lookup_handler (rid c) (hs @ [(c, p)]) = Some (c, p)"
  using assms by (induction hs) auto

lemma set_phase_last:
  assumes "rid c \<notin> rid ` fst ` set hs"
  shows "set_phase (rid c) q (hs @ [(c, p)]) = hs @ [(c, q)]"
  using assms by (induction hs) auto

lemma drop_handler_last:
  assumes "rid c \<notin> rid ` fst ` set hs"
  shows "drop_handler (rid c) (hs @ [(c, p)]) = hs"
  using assms by (induction hs) auto

text \<open>
  A request that is sent again passes the request interceptor, which writes the stored
  access token into the header once more: the header a waiter was given stays.
\<close>

lemma resend_keeps_new_token:
  assumes "ACCESS_TOKEN st = Some a"
  shows "request_interceptor True st (set_bearer a c) = Inr (set_bearer a c)"
  using assms by (simp add: request_interceptor_def set_bearer_def)

subsection \<open>At most one refresh in flight\<close>

lemma count_set_phase:
  assumes "lookup_handler r hs = Some (c, p)"
  shows "length (filter refreshing (set_phase r q hs)) + (if p \<noteq> ClearOnFailure then 1 else 0)
       = length (filter refreshing hs) + (if q \<noteq> ClearOnFailure then 1 else 0)"
  using assms by (induction hs) (auto simp: refreshing_def split: if_splits)

lemma count_drop_handler:
  assumes "lookup_handler r hs = Some (c, p)"
  shows "length (filter refreshing (drop_handler r hs)) + (if p \<noteq> ClearOnFailure then 1 else 0)
       = length (filter refreshing hs)"
  using assms by (induction hs) (auto simp: refreshing_def split: if_splits)

lemma single_flight_response_error:
  "single_flight s \<Longrightarrow> single_flight (on_response_error c st s)"
  by (auto simp: single_flight_def on_response_error_def refreshing_def split: option.splits)

lemma single_flight_storage_done:
  assumes "single_flight s"
  shows "single_flight (on_storage_done r s)"
proof (cases "lookup_handler r (handlers s)")
  case None
  with assms show ?thesis by (simp add: on_storage_done_def)
next
  case (Some h)
  obtain c p where h: "h = (c, p)" by (cases h)
  note l = Some [unfolded h]
  show ?thesis
  proof (cases p)
    case GetRefreshToken
    with assms l count_set_phase [OF l, of PostRefresh] count_set_phase [OF l, of ClearNoToken]
    show ?thesis
      by (auto simp: on_storage_done_def single_flight_def split: option.splits if_splits)
  next
    case ClearNoToken
    with assms l count_set_phase [OF l, of ClearOnFailure]
    show ?thesis
      by (auto simp: on_storage_done_def single_flight_def enter_catch_def split: if_splits)
  next
    case PostRefresh
    with assms l show ?thesis by (simp add: on_storage_done_def)
  next
    case (SetAccessToken a t)
    with assms l count_set_phase [OF l, of "SetRefreshToken a t"]
    show ?thesis
      by (auto simp: on_storage_done_def single_flight_def split: if_splits)
  next
    case (SetRefreshToken a t)
    with assms l count_drop_handler [OF l]
    show ?thesis
      by (auto simp: on_storage_done_def single_flight_def notify_and_retry_def
          split: if_splits)
  next
    case ClearOnFailure
    with assms l count_drop_handler [OF l]
    show ?thesis
      by (auto simp: on_storage_done_def single_flight_def split: if_splits)
  qed
qed

lemma single_flight_post_ok:
  assumes "single_flight s"
  shows "single_flight (on_post_ok r a t s)"
proof (cases "lookup_handler r (handlers s)")
  case None
  with assms show ?thesis by (simp add: on_post_ok_def)
next
  case (Some h)
  obtain c p where h: "h = (c, p)" by (cases h)
  note l = Some [unfolded h]
  from assms l count_set_phase [OF l, of "SetAccessToken a t"] show ?thesis
    by (cases p) (auto simp: on_post_ok_def single_flight_def split: if_splits)
qed

lemma single_flight_post_fail:
  assumes "single_flight s"
  shows "single_flight (on_post_fail r s)"
proof (cases "lookup_handler r (handlers s)")
  case None
  with assms show ?thesis by (simp add: on_post_fail_def)
next
  case (Some h)
  obtain c p where h: "h = (c, p)" by (cases h)
  note l = Some [unfolded h]
  from assms l count_set_phase [OF l, of ClearOnFailure] show ?thesis
    by (cases p) (auto simp: on_post_fail_def single_flight_def enter_catch_def split: if_splits)
qed

lemma single_flight_step: "single_flight s \<Longrightarrow> single_flight (step s e)"
  by (cases e)
    (simp_all add: single_flight_response_error single_flight_storage_done
      single_flight_post_ok single_flight_post_fail)

lemma single_flight_run: "single_flight s \<Longrightarrow> single_flight (run s es)"
  by (induction es arbitrary: s) (simp_all add: run_Nil run_Cons single_flight_step)

text \<open>
  Whatever the environment does, in whatever order, a client that starts idle never has
  two handler runs refreshing at once, and the flag tells whether one is.
\<close>

lemma single_flight_reachable: "single_flight (run (initial_client st) es)"
  by (rule single_flight_run) (simp add: single_flight_def initial_client_def)

text \<open>A refresh call is issued by a handler run at line 181 and nowhere else.\<close>

lemma refresh_call_needs_handler:
  assumes "refreshCalls (step s e) \<noteq> refreshCalls s"
  shows "\<exists>r c. e = StorageDone r \<and> lookup_handler r (handlers s) = Some (c, GetRefreshToken)"
proof (cases e)
  case (ResponseError c st)
  with assms show ?thesis
    by (auto simp: on_response_error_def split: if_splits option.splits)
next
  case (StorageDone r)
  with assms show ?thesis
    by (auto simp: on_storage_done_def enter_catch_def notify_and_retry_def
        split: option.splits phase.splits if_splits)
next
  case (PostOk r a t)
  with assms show ?thesis
    by (auto simp: on_post_ok_def split: option.splits phase.splits)
next
  case (PostFail r)
  with assms show ?thesis
    by (auto simp: on_post_fail_def enter_catch_def split: option.splits phase.splits)
qed

subsection \<open>Concurrent 401 responses\<close>

text \<open>
  Claim C1 as stated fails when no refresh token is stored: of two requests that get a 401
  the first starts the handler and the second waits, no refresh call is issued at all, the
  first is rejected, and the second is neither sent again nor rejected although no
  handler run and no waiter is left in the client.
\<close>

theorem single_refresh_counterexample:
  "run (initial_client no_refresh_token)
     [ResponseError request_A (Some 401), ResponseError request_B (Some 401),
      StorageDone 1, StorageDone 1, StorageDone 1]
   = \<lparr>isRefreshing = False, refreshSubscribers = [], asyncStorage = logged_out,
      handlers = [], refreshCalls = [], resent = [],
      rejected = [(1, AuthenticationRequired)]\<rparr>"
  by (simp add: run_def initial_client_def no_refresh_token_def request_A_def request_B_def
      on_response_error_def on_storage_done_def enter_catch_def truthy_def clearAuthData_def
      logged_out_def)

text \<open>
  Claim C1, amended. Take an idle client and a request \<open>c\<close> not marked as a retry that gets
  a 401, and let any unmarked requests \<open>ws1\<close>, \<open>ws2\<close>, \<open>ws3\<close>, \<open>ws4\<close> get a 401 while
  the refresh that \<open>c\<close> starts is in flight: while its handler waits for the refresh
  token, for the refresh call, and for the two writes of the new tokens. Then \<open>c\<close> sets the
  flag and is the only new handler run, and the others join the waiters. If a refresh
  token is stored, exactly one refresh call is issued for all of them, with that token,
  and that stays the count whether the call succeeds or fails; the flag is reset when it
  has failed. When the call succeeds the new tokens are stored, and each waiter and then
  \<open>c\<close> is sent again with the same new access token in its \<open>Authorization\<close> header.
  If no refresh token is stored, no refresh call is issued.
\<close>

theorem single_refresh_for_concurrent_401:
  assumes idle: "\<not> isRefreshing s" and unmarked: "\<not> retry c"
    and new: "rid c \<notin> rid ` fst ` set (handlers s)"
    and waiters: "\<forall>w \<in> set (ws1 @ ws2 @ ws3 @ ws4). \<not> retry w"
  shows "run s (ResponseError c (Some 401) # unauthorized ws1)
           = s\<lparr>isRefreshing := True,
               handlers := handlers s @ [(c\<lparr>retry := True\<rparr>, GetRefreshToken)],
               refreshSubscribers := refreshSubscribers s @ ws1\<rparr>
       \<and> (REFRESH_TOKEN (asyncStorage s) = Some rt \<and> rt \<noteq> [] \<longrightarrow>
            run s (ResponseError c (Some 401) # unauthorized ws1
                   @ StorageDone (rid c) # unauthorized ws2)
              = s\<lparr>isRefreshing := True,
                  handlers := handlers s @ [(c\<lparr>retry := True\<rparr>, PostRefresh)],
                  refreshSubscribers := refreshSubscribers s @ ws1 @ ws2,
                  refreshCalls := refreshCalls s @ [rt]\<rparr>
            \<and> run s (ResponseError c (Some 401) # unauthorized ws1
                   @ StorageDone (rid c) # unauthorized ws2
                   @ PostOk (rid c) a t # unauthorized ws3
                   @ StorageDone (rid c) # unauthorized ws4
                   @ [StorageDone (rid c)])
              = s\<lparr>asyncStorage :=
                    (asyncStorage s)\<lparr>ACCESS_TOKEN := Some a, REFRESH_TOKEN := Some t\<rparr>,
                  refreshCalls := refreshCalls s @ [rt],
                  resent := resent s
                    @ map (set_bearer a) (refreshSubscribers s @ ws1 @ ws2 @ ws3 @ ws4)
                    @ [set_bearer a (c\<lparr>retry := True\<rparr>)],
                  refreshSubscribers := [],
                  isRefreshing := False\<rparr>
            \<and> refreshCalls
                 (run s (ResponseError c (Some 401) # unauthorized ws1
                         @ StorageDone (rid c) # unauthorized ws2
                         @ [PostFail (rid c)]))
                = refreshCalls s @ [rt]
            \<and> \<not> isRefreshing
                 (run s (ResponseError c (Some 401) # unauthorized ws1
                         @ StorageDone (rid c) # unauthorized ws2
                         @ [PostFail (rid c)]))
            \<and> refreshCalls
                 (run s (ResponseError c (Some 401) # unauthorized ws1
                         @ StorageDone (rid c) # unauthorized ws2
                         @ [PostFail (rid c), StorageDone (rid c)]))
                = refreshCalls s @ [rt])
       \<and> (\<not> truthy (REFRESH_TOKEN (asyncStorage s)) \<longrightarrow>
            refreshCalls
              (run s (ResponseError c (Some 401) # unauthorized ws1
                      @ StorageDone (rid c) # unauthorized ws2
                      @ [StorageDone (rid c), StorageDone (rid c)]))
              = refreshCalls s)"
proof -
  let ?c = "c\<lparr>retry := True\<rparr>"
  have rc: "rid ?c = rid c" by simp
  have new': "rid ?c \<notin> rid ` fst ` set (handlers s)" using new by simp
  note h = lookup_handler_last [OF new', unfolded rc] set_phase_last [OF new', unfolded rc]
    drop_handler_last [OF new', unfolded rc]
  from waiters have w: "\<forall>w \<in> set ws1. \<not> retry w" "\<forall>w \<in> set ws2. \<not> retry w"
    "\<forall>w \<in> set ws3. \<not> retry w" "\<forall>w \<in> set ws4. \<not> retry w" by auto
  have first: "run s (ResponseError c (Some 401) # unauthorized ws1)
      = s\<lparr>isRefreshing := True, handlers := handlers s @ [(?c, GetRefreshToken)],
          refreshSubscribers := refreshSubscribers s @ ws1\<rparr>"
    using idle unmarked w(1) by (simp add: run_Cons run_waiters on_response_error_def)
  have posted: "run s (ResponseError c (Some 401) # unauthorized ws1
                   @ StorageDone (rid c) # unauthorized ws2)
      = s\<lparr>isRefreshing := True, handlers := handlers s @ [(?c, PostRefresh)],
          refreshSubscribers := refreshSubscribers s @ ws1 @ ws2,
          refreshCalls := refreshCalls s @ [rt]\<rparr>"
    if "REFRESH_TOKEN (asyncStorage s) = Some rt \<and> rt \<noteq> []"
    using that idle unmarked h w
    by (simp add: run_Cons run_append run_waiters on_response_error_def
        on_storage_done_def truthy_def)
  have success: "run s (ResponseError c (Some 401) # unauthorized ws1
                   @ StorageDone (rid c) # unauthorized ws2
                   @ PostOk (rid c) a t # unauthorized ws3
                   @ StorageDone (rid c) # unauthorized ws4
                   @ [StorageDone (rid c)])
      = s\<lparr>asyncStorage := (asyncStorage s)\<lparr>ACCESS_TOKEN := Some a, REFRESH_TOKEN := Some t\<rparr>,
          refreshCalls := refreshCalls s @ [rt],
          resent := resent s
            @ map (set_bearer a) (refreshSubscribers s @ ws1 @ ws2 @ ws3 @ ws4)
            @ [set_bearer a ?c],
          refreshSubscribers := [],
          isRefreshing := False\<rparr>"
    if "REFRESH_TOKEN (asyncStorage s) = Some rt \<and> rt \<noteq> []"
    using that idle unmarked h w
    by (simp add: run_Cons run_append run_Nil run_waiters on_response_error_def
        on_storage_done_def on_post_ok_def notify_and_retry_def truthy_def)
  have failure: "run s (ResponseError c (Some 401) # unauthorized ws1
                   @ StorageDone (rid c) # unauthorized ws2 @ [PostFail (rid c)])
      = s\<lparr>handlers := handlers s @ [(?c, ClearOnFailure)],
          refreshSubscribers := [],
          refreshCalls := refreshCalls s @ [rt]\<rparr>"
    if "REFRESH_TOKEN (asyncStorage s) = Some rt \<and> rt \<noteq> []"
    using that idle unmarked h w
    by (simp add: run_Cons run_append run_Nil run_waiters on_response_error_def
        on_storage_done_def on_post_fail_def enter_catch_def truthy_def)
  have cleared: "refreshCalls
      (run s (ResponseError c (Some 401) # unauthorized ws1
              @ StorageDone (rid c) # unauthorized ws2
              @ [PostFail (rid c), StorageDone (rid c)]))
      = refreshCalls s @ [rt]"
    if "REFRESH_TOKEN (asyncStorage s) = Some rt \<and> rt \<noteq> []"
    using that idle unmarked h w
    by (simp add: run_Cons run_append run_Nil run_waiters on_response_error_def
        on_storage_done_def on_post_fail_def enter_catch_def truthy_def)
  have missing: "refreshCalls
      (run s (ResponseError c (Some 401) # unauthorized ws1
              @ StorageDone (rid c) # unauthorized ws2
              @ [StorageDone (rid c), StorageDone (rid c)]))
      = refreshCalls s"
    if "\<not> truthy (REFRESH_TOKEN (asyncStorage s))"
  proof -
    from that consider "REFRESH_TOKEN (asyncStorage s) = None"
      | "REFRESH_TOKEN (asyncStorage s) = Some []"
      by (auto simp: truthy_def split: option.splits)
    then show ?thesis
      using idle unmarked h w
      by cases
        (simp_all add: run_Cons run_append run_Nil run_waiters on_response_error_def
          on_storage_done_def enter_catch_def truthy_def)
  qed
  have failed: "refreshCalls
        (run s (ResponseError c (Some 401) # unauthorized ws1
                @ StorageDone (rid c) # unauthorized ws2 @ [PostFail (rid c)]))
        = refreshCalls s @ [rt]
      \<and> \<not> isRefreshing
        (run s (ResponseError c (Some 401) # unauthorized ws1
                @ StorageDone (rid c) # unauthorized ws2 @ [PostFail (rid c)]))"
    if "REFRESH_TOKEN (asyncStorage s) = Some rt \<and> rt \<noteq> []"
    using failure [OF that] idle by simp
  show ?thesis
    using first posted success failed cleared missing by (intro conjI impI) simp_all
qed

text \<open>
  Claim C1, amended, at three requests on a logged-in client (the second gets its 401
  while the refresh token is read, the third while the new access token is written), at
  two requests on a logged-in client whose refresh call fails, and at two requests on a
  client without a refresh token.
\<close>

theorem single_refresh_for_concurrent_401_witness:
  "\<not> isRefreshing (initial_client logged_in) \<and> \<not> retry request_A
   \<and> rid request_A \<notin> rid ` fst ` set (handlers (initial_client logged_in))
   \<and> list_all (\<lambda>w. \<not> retry w) ([request_B] @ [] @ [request_C] @ [])
   \<and> REFRESH_TOKEN (asyncStorage (initial_client logged_in)) = Some ''refresh-1''
   \<and> ''refresh-1'' \<noteq> []
   \<and> run (initial_client logged_in)
        [ResponseError request_A (Some 401), ResponseError request_B (Some 401),
         StorageDone 1, PostOk 1 ''access-2'' ''refresh-2'',
         ResponseError request_C (Some 401), StorageDone 1, StorageDone 1]
       = \<lparr>isRefreshing = False, refreshSubscribers = [],
          asyncStorage = \<lparr>ACCESS_TOKEN = Some ''access-2'', REFRESH_TOKEN = Some ''refresh-2'',
                          USER_DATA = Some ''user''\<rparr>,
          handlers = [], refreshCalls = [''refresh-1''],
          resent = [request_B\<lparr>authorization := Some ''Bearer access-2''\<rparr>,
                    request_C\<lparr>authorization := Some ''Bearer access-2''\<rparr>,
                    request_A\<lparr>retry := True, authorization := Some ''Bearer access-2''\<rparr>],
          rejected = []\<rparr>
   \<and> refreshCalls
        (run (initial_client logged_in)
           [ResponseError request_A (Some 401), ResponseError request_B (Some 401),
            StorageDone 1, PostFail 1]) = [''refresh-1'']
   \<and> \<not> isRefreshing
        (run (initial_client logged_in)
           [ResponseError request_A (Some 401), ResponseError request_B (Some 401),
            StorageDone 1, PostFail 1])
   \<and> \<not> truthy (REFRESH_TOKEN (asyncStorage (initial_client no_refresh_token)))
   \<and> refreshCalls
        (run (initial_client no_refresh_token)
           [ResponseError request_A (Some 401), ResponseError request_B (Some 401),
            StorageDone 1, StorageDone 1, StorageDone 1]) = []"
proof -
  have h1: "\<not> isRefreshing (initial_client logged_in)" by (simp add: initial_client_def)
  have h1': "\<not> isRefreshing (initial_client no_refresh_token)"
    by (simp add: initial_client_def)
  have h2: "\<not> retry request_A" by (simp add: request_A_def)
  have h3: "rid request_A \<notin> rid ` fst ` set (handlers (initial_client logged_in))"
    by (simp add: initial_client_def)
  have h3': "rid request_A \<notin> rid ` fst ` set (handlers (initial_client no_refresh_token))"
    by (simp add: initial_client_def)
  have h4: "\<forall>w \<in> set ([request_B] @ [] @ [request_C] @ []). \<not> retry w"
    by (simp add: request_B_def request_C_def)
  have h4': "\<forall>w \<in> set ([request_B] @ [] @ [] @ []). \<not> retry w"
    by (simp add: request_B_def)
  have h5: "REFRESH_TOKEN (asyncStorage (initial_client logged_in)) = Some ''refresh-1''
      \<and> ''refresh-1'' \<noteq> []"
    by (simp add: initial_client_def logged_in_def)
  have h6: "\<not> truthy (REFRESH_TOKEN (asyncStorage (initial_client no_refresh_token)))"
    by (simp add: initial_client_def no_refresh_token_def truthy_def)
  have r: "rid request_A = 1" by (simp add: request_A_def)
  note a = single_refresh_for_concurrent_401 [OF h1 h2 h3 h4,
      of "''refresh-1''" "''access-2''" "''refresh-2''"]
  note a' = single_refresh_for_concurrent_401 [OF h1 h2 h3 h4',
      of "''refresh-1''" "''access-2''" "''refresh-2''"]
  note b = single_refresh_for_concurrent_401 [OF h1' h2 h3' h4',
      of "''refresh-1''" "''access-2''" "''refresh-2''"]
  from a h5 have succeeded: "run (initial_client logged_in)
        [ResponseError request_A (Some 401), ResponseError request_B (Some 401),
         StorageDone 1, PostOk 1 ''access-2'' ''refresh-2'',
         ResponseError request_C (Some 401), StorageDone 1, StorageDone 1]
       = \<lparr>isRefreshing = False, refreshSubscribers = [],
          asyncStorage = \<lparr>ACCESS_TOKEN = Some ''access-2'', REFRESH_TOKEN = Some ''refresh-2'',
                          USER_DATA = Some ''user''\<rparr>,
          handlers = [], refreshCalls = [''refresh-1''],
          resent = [request_B\<lparr>authorization := Some ''Bearer access-2''\<rparr>,
                    request_C\<lparr>authorization := Some ''Bearer access-2''\<rparr>,
                    request_A\<lparr>retry := True, authorization := Some ''Bearer access-2''\<rparr>],
          rejected = []\<rparr>"
    by (simp add: r unauthorized_def initial_client_def logged_in_def set_bearer_def
        request_A_def request_B_def request_C_def)
  from a' h5 have failed: "refreshCalls
        (run (initial_client logged_in)
           [ResponseError request_A (Some 401), ResponseError request_B (Some 401),
            StorageDone 1, PostFail 1]) = [''refresh-1'']
      \<and> \<not> isRefreshing
        (run (initial_client logged_in)
           [ResponseError request_A (Some 401), ResponseError request_B (Some 401),
            StorageDone 1, PostFail 1])"
    by (simp add: r unauthorized_def initial_client_def)
  from b h6 have missing: "refreshCalls
        (run (initial_client no_refresh_token)
           [ResponseError request_A (Some 401), ResponseError request_B (Some 401),
            StorageDone 1, StorageDone 1, StorageDone 1]) = []"
    by (simp add: r unauthorized_def initial_client_def)
  from succeeded failed missing h1 h2 h3 h4 h5 h6 show ?thesis
    unfolding list_all_iff by simp
qed

subsection \<open>A refresh that fails\<close>

text \<open>
  Claim C2 at two requests that get a 401 on a logged-in client whose refresh call is
  rejected. The stored tokens and user data are cleared and the first request is rejected
  with \<open>Authentication required\<close>. The second request, a waiter when the call failed, is
  dropped by line 206 without being called: it is neither sent again nor rejected, and
  the client is idle with no handler run left that could still settle it.
\<close>

theorem failed_refresh_abandons_waiters:
  "run (initial_client logged_in)
     [ResponseError request_A (Some 401), ResponseError request_B (Some 401),
      StorageDone 1, PostFail 1, StorageDone 1]
   = \<lparr>isRefreshing = False, refreshSubscribers = [], asyncStorage = logged_out,
      handlers = [], refreshCalls = [''refresh-1''], resent = [],
      rejected = [(1, AuthenticationRequired)]\<rparr>"
  by (simp add: run_def initial_client_def logged_in_def request_A_def request_B_def
      on_response_error_def on_storage_done_def on_post_fail_def enter_catch_def truthy_def
      clearAuthData_def logged_out_def)

subsection \<open>A 401 on a request that was sent again\<close>

text \<open>
  Claim C4 at two requests that get a 401 on a logged-in client whose refresh succeeds.
  Both are sent again, the first marked as a retry, the second (the waiter) unmarked. A
  401 for the second one's re-send therefore starts a second refresh call, after which
  the request is sent a third time; a 401 for the first one's re-send is rejected with
  the status 401 without a refresh.
\<close>

theorem waiter_retry_starts_second_refresh:
  "run (initial_client logged_in)
     [ResponseError request_A (Some 401), ResponseError request_B (Some 401),
      StorageDone 1, PostOk 1 ''access-2'' ''refresh-2'', StorageDone 1, StorageDone 1,
      ResponseError (request_A\<lparr>retry := True, authorization := Some ''Bearer access-2''\<rparr>)
        (Some 401),
      ResponseError (request_B\<lparr>authorization := Some ''Bearer access-2''\<rparr>) (Some 401),
      StorageDone 2, PostOk 2 ''access-3'' ''refresh-3'', StorageDone 2, StorageDone 2]
   = \<lparr>isRefreshing = False, refreshSubscribers = [],
      asyncStorage = \<lparr>ACCESS_TOKEN = Some ''access-3'', REFRESH_TOKEN = Some ''refresh-3'',
                      USER_DATA = Some ''user''\<rparr>,
      handlers = [], refreshCalls = [''refresh-1'', ''refresh-2''],
      resent = [request_B\<lparr>authorization := Some ''Bearer access-2''\<rparr>,
                request_A\<lparr>retry := True, authorization := Some ''Bearer access-2''\<rparr>,
                request_B\<lparr>retry := True, authorization := Some ''Bearer access-3''\<rparr>],
      rejected = [(1, ApiError 401)]\<rparr>"
  by (simp add: run_def initial_client_def logged_in_def request_A_def request_B_def
      on_response_error_def on_storage_done_def on_post_ok_def notify_and_retry_def
      set_bearer_def truthy_def)

subsection \<open>No refresh token\<close>

text \<open>
  Claim C10 as stated fails for a request marked as a retry: its 401 is rejected with the
  status 401, and the stored access token and user data stay, although no refresh token
  is stored.
\<close>

theorem missing_refresh_token_counterexample:
  "retry retried_request \<and> REFRESH_TOKEN no_refresh_token = None
   \<and> run (initial_client no_refresh_token) [ResponseError retried_request (Some 401)]
     = \<lparr>isRefreshing = False, refreshSubscribers = [], asyncStorage = no_refresh_token,
        handlers = [], refreshCalls = [], resent = [], rejected = [(1, ApiError 401)]\<rparr>
   \<and> ACCESS_TOKEN no_refresh_token = Some ''access-1''
   \<and> USER_DATA no_refresh_token = Some ''user''"
  by (simp add: run_def initial_client_def no_refresh_token_def retried_request_def
      on_response_error_def)

text \<open>
  Claim C10, amended. When a request that is not marked as a retry gets a 401 while no
  refresh is in flight, and no refresh token is stored (the key is missing or holds the
  empty string), then once the three storage operations of its handler have completed the
  access token, the refresh token and the user data are cleared, the request is rejected
  with \<open>Authentication required\<close>, and no refresh call has been issued.
\<close>

theorem missing_refresh_token_requires_login:
  assumes idle: "\<not> isRefreshing s" and unmarked: "\<not> retry c"
    and new: "rid c \<notin> rid ` fst ` set (handlers s)"
    and missing: "\<not> truthy (REFRESH_TOKEN (asyncStorage s))"
  shows "run s [ResponseError c (Some 401),
                StorageDone (rid c), StorageDone (rid c), StorageDone (rid c)]
           = s\<lparr>asyncStorage :=
                 \<lparr>ACCESS_TOKEN = None, REFRESH_TOKEN = None, USER_DATA = None\<rparr>,
               refreshSubscribers := [],
               rejected := rejected s @ [(rid c, AuthenticationRequired)]\<rparr>
       \<and> refreshCalls
            (run s [ResponseError c (Some 401),
                    StorageDone (rid c), StorageDone (rid c), StorageDone (rid c)])
           = refreshCalls s"
proof -
  let ?c = "c\<lparr>retry := True\<rparr>"
  have rc: "rid ?c = rid c" by simp
  have new': "rid ?c \<notin> rid ` fst ` set (handlers s)" using new by simp
  note h = lookup_handler_last [OF new', unfolded rc] set_phase_last [OF new', unfolded rc]
    drop_handler_last [OF new', unfolded rc]
  from missing consider "REFRESH_TOKEN (asyncStorage s) = None"
    | "REFRESH_TOKEN (asyncStorage s) = Some []"
    by (auto simp: truthy_def split: option.splits)
  then show ?thesis
    using idle unmarked h
    by cases
      (simp_all add: run_Cons run_Nil on_response_error_def on_storage_done_def
        enter_catch_def clearAuthData_def truthy_def)
qed

text \<open>Claim C10, amended, at one request on a client that holds no refresh token.\<close>

theorem missing_refresh_token_requires_login_witness:
  "\<not> isRefreshing (initial_client no_refresh_token) \<and> \<not> retry request_A
   \<and> rid request_A \<notin> rid ` fst ` set (handlers (initial_client no_refresh_token))
   \<and> \<not> truthy (REFRESH_TOKEN (asyncStorage (initial_client no_refresh_token)))
   \<and> run (initial_client no_refresh_token)
        [ResponseError request_A (Some 401), StorageDone 1, StorageDone 1, StorageDone 1]
     = \<lparr>isRefreshing = False, refreshSubscribers = [], asyncStorage = logged_out,
        handlers = [], refreshCalls = [], resent = [],
        rejected = [(1, AuthenticationRequired)]\<rparr>"
proof -
  have h1: "\<not> isRefreshing (initial_client no_refresh_token)"
    by (simp add: initial_client_def)
  have h2: "\<not> retry request_A" by (simp add: request_A_def)
  have h3: "rid request_A \<notin> rid ` fst ` set (handlers (initial_client no_refresh_token))"
    by (simp add: initial_client_def)
  have h4: "\<not> truthy (REFRESH_TOKEN (asyncStorage (initial_client no_refresh_token)))"
    by (simp add: initial_client_def no_refresh_token_def truthy_def)
  have r: "rid request_A = 1" by (simp add: request_A_def)
  from missing_refresh_token_requires_login [OF h1 h2 h3 h4]
  have "run (initial_client no_refresh_token)
        [ResponseError request_A (Some 401), StorageDone 1, StorageDone 1, StorageDone 1]
     = \<lparr>isRefreshing = False, refreshSubscribers = [], asyncStorage = logged_out,
        handlers = [], refreshCalls = [], resent = [],
        rejected = [(1, AuthenticationRequired)]\<rparr>"
    by (simp add: r initial_client_def logged_out_def)
  with h1 h2 h3 h4 show ?thesis by blast
qed

end
